theory Spec2Isabelle
  imports Complex_Main
begin

section \<open>Python values\<close>

text \<open>
  The values that flow through slots, entities and slot mappings are Python objects of
  type \<open>Any\<close>. The model keeps the kinds the form code distinguishes: \<open>None\<close>, text,
  integers and lists. Booleans, floats and dictionaries as slot values are outside the
  model, so that equality of values is Python's \<open>==\<close>.
\<close>

datatype pyval = VNone | VStr string | VInt int | VList "pyval list"

text \<open>Python truthiness, as used by \<open>if slot_to_fill:\<close>.\<close>

fun truthy :: "pyval \<Rightarrow> bool" where
  "truthy VNone = False"
| "truthy (VStr s) = (s \<noteq> [])"
| "truthy (VInt n) = (n \<noteq> 0)"
| "truthy (VList xs) = (xs \<noteq> [])"

text \<open>A list cannot be a dictionary key: using one raises \<open>TypeError\<close>.\<close>

fun hashable :: "pyval \<Rightarrow> bool" where
  "hashable (VList xs) = False"
| "hashable v = True"

text \<open>
  An insertion-ordered Python dictionary is an association list with distinct keys.
  \<open>d[k] = v\<close> keeps the position of an existing key and appends a new one;
  \<open>d.update(other)\<close> stores the items of \<open>other\<close> in their order.
\<close>

fun dict_set :: "('k \<times> 'v) list \<Rightarrow> 'k \<Rightarrow> 'v \<Rightarrow> ('k \<times> 'v) list" where
  "dict_set [] k v = [(k, v)]"
| "dict_set ((k', v') # d) k v = (if k' = k then (k', v) # d else (k', v') # dict_set d k v)"

fun dict_update :: "('k \<times> 'v) list \<Rightarrow> ('k \<times> 'v) list \<Rightarrow> ('k \<times> 'v) list" where
  "dict_update d [] = d"
| "dict_update d ((k, v) # other) = dict_update (dict_set d k v) other"

section \<open>Errors, events, tracker and domain\<close>

text \<open>
  Every \<open>raise\<close> of the code is a value of \<open>error\<close>. The rejection carries
  the action name and the requested slot, the two values its message is formatted from.
  \<open>AttributeError\<close> is what reading \<open>self._domain.forms\<close> raises while
  \<open>self._domain\<close> is still \<open>None\<close>; \<open>RemoteError\<close> stands for any failure of the
  remote validation action. \<open>ClientError\<close> is the transport error of the HTTP client;
  \<open>Abort\<close>, \<open>UndoLastStep\<close>, \<open>ForkTracker\<close> and \<open>RestartConversation\<close> are the
  exceptions by which the interactive session breaks out of a question.
\<close>

datatype error =
    TypeError string
  | ValueError string
  | AttributeError string
  | ActionExecutionRejection string pyval
  | RemoteError string
  | RasaException string
  | ClientError
  | Abort
  | UndoLastStep
  | ForkTracker
  | RestartConversation

datatype event =
    SlotSet pyval pyval
  | Form "string option"
  | ActionExecuted string
  | BotUttered string

record entity =
  e_entity :: string
  e_value :: pyval
  e_role :: "string option"
  e_group :: "string option"

record user_message =
  intent_name :: "string option"
  msg_text :: "string option"
  entities :: "entity list"

text \<open>
  \<open>tracker.active_form\<close> is a dictionary, empty while no form is active; the fields
  are what \<open>.get("name")\<close> and \<open>.get("validate")\<close> find, \<open>None\<close> for a missing key.
\<close>

record active_form_dict =
  af_name :: "string option"
  af_validate :: "bool option"

record tracker =
  slots :: "string \<rightharpoonup> pyval"
  latest_message :: user_message
  active_form :: active_form_dict
  latest_action_name :: "string option"

definition REQUESTED_SLOT :: string where
  "REQUESTED_SLOT = ''requested_slot''"

text \<open>
  Modelled from the spec: \<open>DialogueStateTracker.get_slot\<close> (the tracker class is not
  among the sources). It returns the current value, or \<open>None\<close> if the slot is unset
  or unknown. Slot names are text; no value is stored under another key.
\<close>

fun get_slot :: "tracker \<Rightarrow> pyval \<Rightarrow> pyval" where
  "get_slot t (VStr k) = (case slots t k of None \<Rightarrow> VNone | Some v \<Rightarrow> v)"
| "get_slot t k = VNone"

text \<open>
  Modelled from the spec: \<open>DialogueStateTracker.get_latest_entity_values\<close>. The values
  of the entities of the given type in the latest user message, in order, filtered by
  role and group when these are given.
\<close>

definition get_latest_entity_values ::
  "tracker \<Rightarrow> pyval \<Rightarrow> string option \<Rightarrow> string option \<Rightarrow> pyval list" where
  "get_latest_entity_values t entity_type entity_group entity_role =
     map e_value
       (filter (\<lambda>x. VStr (e_entity x) = entity_type
                   \<and> (entity_group = None \<or> e_group x = entity_group)
                   \<and> (entity_role = None \<or> e_role x = entity_role))
          (entities (latest_message t)))"

text \<open>
  Modelled from the spec: the replay of \<open>DialogueStateTracker.from_events\<close>. The
  applied state is the fold of \<open>apply\<close> over the events: a slot event updates only the
  slot map, an executed action updates the last action, a form event sets or clears the
  active-form descriptor. The hypothetical tracker built from
  \<open>tracker.events_after_latest_restart() + events\<close> is the state of \<open>tracker\<close> with
  \<open>events\<close> applied on top.
\<close>

fun apply_event :: "tracker \<Rightarrow> event \<Rightarrow> tracker" where
  "apply_event t (SlotSet (VStr k) v) = t\<lparr>slots := (slots t)(k \<mapsto> v)\<rparr>"
| "apply_event t (SlotSet k v) = t"
| "apply_event t (Form None) = t\<lparr>active_form := \<lparr>af_name = None, af_validate = None\<rparr>\<rparr>"
| "apply_event t (Form (Some n)) =
     t\<lparr>active_form := \<lparr>af_name = Some n, af_validate = Some True\<rparr>\<rparr>"
| "apply_event t (ActionExecuted a) = t\<lparr>latest_action_name := Some a\<rparr>"
| "apply_event t (BotUttered m) = t"

definition from_events :: "tracker \<Rightarrow> event list \<Rightarrow> tracker" where
  "from_events t events = foldl apply_event t events"

section \<open>Slot mappings and the form configuration\<close>

text \<open>
  A slot mapping is a dictionary read with \<open>.get\<close>: a missing key and a key holding
  \<open>None\<close> are the same to the code, so \<open>VNone\<close>, \<open>None\<close> and \<open>[]\<close> stand for both.
  The only subscript on a key that may be missing, \<open>other_slot_mapping["entity"]\<close>, is
  reached only after \<open>entity_is_desired\<close> held, which needs an entity name or an
  entity of the message matching it; entities of a message have text names.
\<close>

record slot_mapping =
  m_type :: pyval
  m_entity :: pyval
  m_intent :: "string list"
  m_not_intent :: "string list"
  m_role :: "string option"
  m_group :: "string option"
  m_value :: pyval

text \<open>What a form configuration may hold for a slot: nothing, one object, or a list.\<close>

datatype mapping_entry = NotADict | MDict slot_mapping

datatype slot_config = CNone | CSingle mapping_entry | CList "mapping_entry list"

type_synonym form_config = "(string \<times> slot_config) list"

record domain =
  forms :: "(string \<times> form_config) list list"
  action_names :: "string list"

text \<open>
  The form action: its name, the \<open>_domain\<close> attribute (\<open>None\<close> until \<open>run\<close> stores
  the domain) and the action endpoint, which is the remote validation action seen from
  the form: given the action name, the hypothetical tracker and the domain it returns
  events or fails.
\<close>

record form_action =
  form_name :: string
  self_domain :: "domain option"
  action_endpoint :: "string \<Rightarrow> tracker \<Rightarrow> domain \<Rightarrow> error + event list"

text \<open>The \<open>intent\<close> and \<open>not_intent\<close> arguments: \<open>None\<close>, one text or a list.\<close>

datatype intent_arg = INone | IText string | IList "string list"

fun intent_arg_truthy :: "intent_arg \<Rightarrow> bool" where
  "intent_arg_truthy INone = False"
| "intent_arg_truthy (IText s) = (s \<noteq> [])"
| "intent_arg_truthy (IList xs) = (xs \<noteq> [])"

fun to_list_intents :: "intent_arg \<Rightarrow> string list" where
  "to_list_intents INone = []"
| "to_list_intents (IText s) = [s]"
| "to_list_intents (IList xs) = xs"

fun to_list :: "slot_config \<Rightarrow> mapping_entry list" where
  "to_list CNone = []"
| "to_list (CSingle x) = [x]"
| "to_list (CList xs) = xs"

definition list_intents :: "intent_arg \<Rightarrow> intent_arg \<Rightarrow> error + (string list \<times> string list)" where
  "list_intents intent not_intent =
     (if intent_arg_truthy intent \<and> intent_arg_truthy not_intent
      then Inl (ValueError ''Providing both intent and not_intent is not supported.'')
      else Inr (to_list_intents intent, to_list_intents not_intent))"

definition from_entity ::
  "pyval \<Rightarrow> intent_arg \<Rightarrow> intent_arg \<Rightarrow> string option \<Rightarrow> string option \<Rightarrow> error + slot_mapping" where
  "from_entity entity intent not_intent role grp =
     (case list_intents intent not_intent of
        Inl e \<Rightarrow> Inl e
      | Inr (intent', not_intent') \<Rightarrow>
          Inr \<lparr>m_type = VStr ''from_entity'', m_entity = entity, m_intent = intent',
               m_not_intent = not_intent', m_role = role, m_group = grp,
               m_value = VNone\<rparr>)"

fun config_lookup :: "string \<Rightarrow> (string \<times> form_config) list list \<Rightarrow> form_config" where
  "config_lookup name [] = []"
| "config_lookup name (form # rest) =
     (case map_of form name of Some c \<Rightarrow> c | None \<Rightarrow> config_lookup name rest)"

definition config :: "form_action \<Rightarrow> error + form_config" where
  "config self =
     (case self_domain self of
        None \<Rightarrow> Inl (AttributeError ''forms'')
      | Some d \<Rightarrow> Inr (config_lookup (form_name self) (forms d)))"

definition required_slots :: "form_action \<Rightarrow> error + string list" where
  "required_slots self =
     (case config self of Inl e \<Rightarrow> Inl e | Inr c \<Rightarrow> Inr (map fst c))"

definition slot_mappings :: "form_action \<Rightarrow> error + form_config" where
  "slot_mappings self =
     (case self_domain self of None \<Rightarrow> Inr [] | Some d \<Rightarrow> config self)"

text \<open>The check of the provided mappings: each must be a dictionary with a type.\<close>

fun check_mappings :: "mapping_entry list \<Rightarrow> error + slot_mapping list" where
  "check_mappings [] = Inr []"
| "check_mappings (NotADict # rest) = Inl (TypeError ''Provided incompatible slot mapping'')"
| "check_mappings (MDict m # rest) =
     (if m_type m = VNone then Inl (TypeError ''Provided incompatible slot mapping'')
      else (case check_mappings rest of Inl e \<Rightarrow> Inl e | Inr ms \<Rightarrow> Inr (m # ms)))"

text \<open>\<open>dict.get(key, default)\<close> on a dictionary with text keys.\<close>

definition dict_get :: "(string \<times> 'v) list \<Rightarrow> pyval \<Rightarrow> 'v \<Rightarrow> error + 'v" where
  "dict_get d key dflt =
     (if \<not> hashable key then Inl (TypeError ''unhashable type'')
      else (case key of
              VStr k \<Rightarrow> (case map_of d k of Some v \<Rightarrow> Inr v | None \<Rightarrow> Inr dflt)
            | _ \<Rightarrow> Inr dflt))"

definition get_mappings_for_slot :: "form_action \<Rightarrow> pyval \<Rightarrow> error + slot_mapping list" where
  "get_mappings_for_slot self slot_to_fill =
     (case slot_mappings self of
        Inl e \<Rightarrow> Inl e
      | Inr sm \<Rightarrow>
         (case from_entity slot_to_fill INone INone None None of
            Inl e \<Rightarrow> Inl e
          | Inr dflt \<Rightarrow>
             (case dict_get sm slot_to_fill (CSingle (MDict dflt)) of
                Inl e \<Rightarrow> Inl e
              | Inr c \<Rightarrow> check_mappings (to_list c))))"

section \<open>Extraction\<close>

text \<open>\<open>intent in mapping_intents\<close> for an intent name that may be \<open>None\<close>.\<close>

fun py_in :: "string option \<Rightarrow> string list \<Rightarrow> bool" where
  "py_in None xs = False"
| "py_in (Some s) xs = (s \<in> set xs)"

definition intent_is_desired :: "slot_mapping \<Rightarrow> tracker \<Rightarrow> bool" where
  "intent_is_desired requested_slot_mapping t =
     (let mapping_intents = m_intent requested_slot_mapping;
          mapping_not_intents = m_not_intent requested_slot_mapping;
          intent = intent_name (latest_message t);
          intent_not_blacklisted = (mapping_intents = [] \<and> \<not> py_in intent mapping_not_intents)
      in intent_not_blacklisted \<or> py_in intent mapping_intents)"

definition get_entity_value ::
  "pyval \<Rightarrow> tracker \<Rightarrow> string option \<Rightarrow> string option \<Rightarrow> pyval" where
  "get_entity_value name t role grp =
     (let val = get_latest_entity_values t name grp role
      in if length val = 0 then VNone
         else if length val = 1 then hd val
         else VList val)"

definition entity_is_desired :: "slot_mapping \<Rightarrow> string \<Rightarrow> tracker \<Rightarrow> bool" where
  "entity_is_desired requested_slot_mapping slot t =
     (let slot_equals_entity = (VStr slot = m_entity requested_slot_mapping);
          matching_values = get_entity_value (m_entity requested_slot_mapping) t
                              (m_role requested_slot_mapping) (m_group requested_slot_mapping);
          slot_fulfils_entity_mapping = (matching_values \<noteq> VNone)
      in slot_equals_entity \<or> slot_fulfils_entity_mapping)"

text \<open>
  The inner loop of \<open>extract_other_slots\<close>: the value of the first mapping that gives
  one, \<open>None\<close> if the loop ends without a \<open>break\<close>.
\<close>

fun other_slot_value :: "form_action \<Rightarrow> tracker \<Rightarrow> string \<Rightarrow> slot_mapping list \<Rightarrow> pyval" where
  "other_slot_value self t slot [] = VNone"
| "other_slot_value self t slot (other_slot_mapping # rest) =
     (let should_fill_entity_slot =
            (m_type other_slot_mapping = VStr ''from_entity''
             \<and> intent_is_desired other_slot_mapping t
             \<and> entity_is_desired other_slot_mapping slot t);
          should_fill_trigger_slot =
            (af_name (active_form t) \<noteq> Some (form_name self)
             \<and> m_type other_slot_mapping = VStr ''from_trigger_intent''
             \<and> intent_is_desired other_slot_mapping t);
          val = (if should_fill_entity_slot
                 then get_entity_value (m_entity other_slot_mapping) t
                        (m_role other_slot_mapping) (m_group other_slot_mapping)
                 else if should_fill_trigger_slot then m_value other_slot_mapping
                 else VNone)
      in if val \<noteq> VNone then val else other_slot_value self t slot rest)"

fun extract_other_slots_loop ::
  "form_action \<Rightarrow> tracker \<Rightarrow> pyval \<Rightarrow> (pyval \<times> pyval) list \<Rightarrow> string list
     \<Rightarrow> error + (pyval \<times> pyval) list" where
  "extract_other_slots_loop self t slot_to_fill slot_values [] = Inr slot_values"
| "extract_other_slots_loop self t slot_to_fill slot_values (slot # rest) =
     (if VStr slot \<noteq> slot_to_fill
      then (case get_mappings_for_slot self (VStr slot) of
              Inl e \<Rightarrow> Inl e
            | Inr other_slot_mappings \<Rightarrow>
               (if other_slot_value self t slot other_slot_mappings \<noteq> VNone
                then extract_other_slots_loop self t slot_to_fill
                       (dict_set slot_values (VStr slot)
                          (other_slot_value self t slot other_slot_mappings)) rest
                else extract_other_slots_loop self t slot_to_fill slot_values rest))
      else extract_other_slots_loop self t slot_to_fill slot_values rest)"

definition extract_other_slots :: "form_action \<Rightarrow> tracker \<Rightarrow> error + (pyval \<times> pyval) list" where
  "extract_other_slots self t =
     (let slot_to_fill = get_slot t (VStr REQUESTED_SLOT)
      in case required_slots self of
           Inl e \<Rightarrow> Inl e
         | Inr rs \<Rightarrow> extract_other_slots_loop self t slot_to_fill [] rs)"

text \<open>
  One pass of the loop of \<open>extract_requested_slot\<close> computes the candidate value of a
  mapping whose intent condition holds: \<open>Inr None\<close> is the \<open>continue\<close> of a
  trigger-intent mapping, \<open>Inl\<close> the \<open>ValueError\<close> of an unsupported type.
\<close>

definition requested_mapping_value :: "slot_mapping \<Rightarrow> tracker \<Rightarrow> error + pyval option" where
  "requested_mapping_value requested_slot_mapping t =
     (let mapping_type = m_type requested_slot_mapping
      in if mapping_type = VStr ''from_entity''
         then Inr (Some (get_entity_value (m_entity requested_slot_mapping) t
                           (m_role requested_slot_mapping) (m_group requested_slot_mapping)))
         else if mapping_type = VStr ''from_intent''
         then Inr (Some (m_value requested_slot_mapping))
         else if mapping_type = VStr ''from_trigger_intent''
         then Inr None
         else if mapping_type = VStr ''from_text''
         then Inr (Some (case msg_text (latest_message t) of None \<Rightarrow> VNone | Some s \<Rightarrow> VStr s))
         else Inl (ValueError ''Provided slot mapping type is not supported''))"

fun extract_requested_slot_loop ::
  "tracker \<Rightarrow> pyval \<Rightarrow> slot_mapping list \<Rightarrow> error + (pyval \<times> pyval) list" where
  "extract_requested_slot_loop t slot_to_fill [] = Inr []"
| "extract_requested_slot_loop t slot_to_fill (requested_slot_mapping # rest) =
     (if intent_is_desired requested_slot_mapping t
      then (case requested_mapping_value requested_slot_mapping t of
              Inl e \<Rightarrow> Inl e
            | Inr None \<Rightarrow> extract_requested_slot_loop t slot_to_fill rest
            | Inr (Some val) \<Rightarrow>
               (if val \<noteq> VNone then Inr [(slot_to_fill, val)]
                else extract_requested_slot_loop t slot_to_fill rest))
      else extract_requested_slot_loop t slot_to_fill rest)"

definition extract_requested_slot :: "form_action \<Rightarrow> tracker \<Rightarrow> error + (pyval \<times> pyval) list" where
  "extract_requested_slot self t =
     (let slot_to_fill = get_slot t (VStr REQUESTED_SLOT)
      in case get_mappings_for_slot self slot_to_fill of
           Inl e \<Rightarrow> Inl e
         | Inr requested_slot_mappings \<Rightarrow>
             extract_requested_slot_loop t slot_to_fill requested_slot_mappings)"

section \<open>The form state machine\<close>

definition validate_slots ::
  "form_action \<Rightarrow> (pyval \<times> pyval) list \<Rightarrow> tracker \<Rightarrow> domain \<Rightarrow> error + event list" where
  "validate_slots self slot_dict t d =
     (let validate_name = ''action_validate_'' @ form_name self;
          form_events = map (\<lambda>(slot_name, val). SlotSet slot_name val) slot_dict
      in if validate_name \<notin> set (action_names d) \<or> af_validate (active_form t) \<noteq> Some True
         then Inr form_events
         else action_endpoint self validate_name (from_events t form_events) d)"

definition validate :: "form_action \<Rightarrow> tracker \<Rightarrow> domain \<Rightarrow> error + event list" where
  "validate self t d =
     (case extract_other_slots self t of
        Inl e \<Rightarrow> Inl e
      | Inr slot_values \<Rightarrow>
         (let slot_to_fill = get_slot t (VStr REQUESTED_SLOT)
          in if truthy slot_to_fill
             then (case extract_requested_slot self t of
                     Inl e \<Rightarrow> Inl e
                   | Inr requested \<Rightarrow>
                      (if dict_update slot_values requested = []
                       then Inl (ActionExecutionRejection (form_name self) slot_to_fill)
                       else validate_slots self (dict_update slot_values requested) t d))
             else validate_slots self slot_values t d))"

definition should_request_slot :: "tracker \<Rightarrow> string \<Rightarrow> bool" where
  "should_request_slot t slot_name = (get_slot t (VStr slot_name) = VNone)"

fun request_next_slot_loop :: "tracker \<Rightarrow> string list \<Rightarrow> event list option" where
  "request_next_slot_loop t [] = None"
| "request_next_slot_loop t (slot # rest) =
     (if should_request_slot t slot then Some [SlotSet (VStr REQUESTED_SLOT) (VStr slot)]
      else request_next_slot_loop t rest)"

definition request_next_slot :: "form_action \<Rightarrow> tracker \<Rightarrow> error + event list option" where
  "request_next_slot self t =
     (case required_slots self of
        Inl e \<Rightarrow> Inl e
      | Inr rs \<Rightarrow> Inr (request_next_slot_loop t rs))"

definition deactivate :: "event list" where
  "deactivate = [Form None, SlotSet (VStr REQUESTED_SLOT) VNone]"

fun prefilled_slots_loop ::
  "tracker \<Rightarrow> (pyval \<times> pyval) list \<Rightarrow> string list \<Rightarrow> (pyval \<times> pyval) list" where
  "prefilled_slots_loop t prefilled_slots [] = prefilled_slots"
| "prefilled_slots_loop t prefilled_slots (slot_name # rest) =
     (if \<not> should_request_slot t slot_name
      then prefilled_slots_loop t
             (dict_set prefilled_slots (VStr slot_name) (get_slot t (VStr slot_name))) rest
      else prefilled_slots_loop t prefilled_slots rest)"

definition activate_if_required :: "form_action \<Rightarrow> tracker \<Rightarrow> domain \<Rightarrow> error + event list" where
  "activate_if_required self t d =
     (if af_name (active_form t) = Some (form_name self) then Inr []
      else (case required_slots self of
              Inl e \<Rightarrow> Inl e
            | Inr rs \<Rightarrow>
               (let events = [Form (Some (form_name self))];
                    prefilled_slots = prefilled_slots_loop t [] rs
                in if prefilled_slots \<noteq> []
                   then (case validate_slots self prefilled_slots t d of
                           Inl e \<Rightarrow> Inl e
                         | Inr validated \<Rightarrow> Inr (events @ validated))
                   else Inr events)))"

definition validate_if_required :: "form_action \<Rightarrow> tracker \<Rightarrow> domain \<Rightarrow> error + event list" where
  "validate_if_required self t d =
     (if latest_action_name t = Some ''action_listen''
         \<and> (case af_validate (active_form t) of None \<Rightarrow> True | Some b \<Rightarrow> b)
      then validate self t d
      else Inr [])"

text \<open>
  \<open>run\<close> first stores the domain in \<open>self._domain\<close>. \<open>_log_form_slots\<close> only writes
  to the log and is left out.
\<close>

definition run :: "form_action \<Rightarrow> tracker \<Rightarrow> domain \<Rightarrow> error + event list" where
  "run self0 t d =
     (let self = self0\<lparr>self_domain := Some d\<rparr>
      in case activate_if_required self t d of
           Inl e \<Rightarrow> Inl e
         | Inr activation_events \<Rightarrow>
            (case validate_if_required self t d of
               Inl e \<Rightarrow> Inl e
             | Inr events \<Rightarrow>
                (if Form None \<notin> set events
                 then (case request_next_slot self (from_events t events) of
                         Inl e \<Rightarrow> Inl e
                       | Inr (Some next_slot_events) \<Rightarrow>
                           Inr (activation_events @ events @ next_slot_events)
                       | Inr None \<Rightarrow> Inr (events @ deactivate))
                 else Inr events)))"

section \<open>Logging an action in an interactive session\<close>

text \<open>
  The payload of \<open>send_action\<close> and \<open>send_event\<close> is the dictionary of an
  \<open>ActionExecuted\<close> event: its name, policy and confidence (the timestamp is left out).
  The endpoint is what answers a request: a response, or an exception.
\<close>

record action_executed_dict =
  ae_name :: string
  ae_policy :: "string option"
  ae_confidence :: "real option"

record http_request =
  req_method :: string
  req_subpath :: string
  req_json :: action_executed_dict

text \<open>
  The two warnings shown for a new action that could not be executed. \<open>NEW_TEMPLATES\<close>
  maps a new action to the response created with it (its dictionary is always created with
  that one key). \<open>_ask_questions\<close> belongs to the terminal interface: it is the
  parameter \<open>ask\<close>, which gives the answer or the exception chosen in the quit menu.
\<close>

datatype question =
    NewActionWithResponse string string
  | NewActionNotExecuted string

definition send_event ::
  "(http_request \<Rightarrow> error + 'r) \<Rightarrow> string \<Rightarrow> action_executed_dict \<Rightarrow> error + 'r" where
  "send_event endpoint conversation_id evt =
     (let subpath = ''/conversations/'' @ conversation_id @ ''/tracker/events''
      in endpoint \<lparr>req_method = ''post'', req_subpath = subpath, req_json = evt\<rparr>)"

definition send_action ::
  "(http_request \<Rightarrow> error + 'r) \<Rightarrow> (question \<Rightarrow> error + bool) \<Rightarrow> (string \<rightharpoonup> string)
     \<Rightarrow> string \<Rightarrow> string \<Rightarrow> string option \<Rightarrow> real option \<Rightarrow> bool \<Rightarrow> error + 'r" where
  "send_action endpoint ask NEW_TEMPLATES conversation_id action_name policy confidence
       is_new_action =
     (let payload = \<lparr>ae_name = action_name, ae_policy = policy, ae_confidence = confidence\<rparr>;
          subpath = ''/conversations/'' @ conversation_id @ ''/execute''
      in case endpoint \<lparr>req_method = ''post'', req_subpath = subpath, req_json = payload\<rparr> of
           Inr response \<Rightarrow> Inr response
         | Inl ClientError \<Rightarrow>
            (if is_new_action
             then (case (case NEW_TEMPLATES action_name of
                           Some response \<Rightarrow> ask (NewActionWithResponse action_name response)
                         | None \<Rightarrow> ask (NewActionNotExecuted action_name)) of
                     Inl e \<Rightarrow> Inl e
                   | Inr answer \<Rightarrow>
                       send_event endpoint conversation_id
                         \<lparr>ae_name = action_name, ae_policy = None, ae_confidence = None\<rparr>)
             else Inl ClientError)
         | Inl e \<Rightarrow> Inl e)"

section \<open>The stub executor of end-to-end tests\<close>

text \<open>
  \<open>get_stub_custom_action\<close> of \<open>rasa.e2e_test.stub_custom_action\<close> and the stub's
  \<open>as_dict\<close> are not among the sources: the lookup is the parameter \<open>lookup\<close>
  (\<open>None\<close> when no stub is registered, as its test asserts) and the conversion the
  parameter \<open>as_dict\<close>. The network is a log of the requests made so far.
\<close>

record ('e, 's) E2EStubCustomActionExecutor =
  ex_action_name :: string
  ex_action_endpoint :: 'e
  ex_stub_custom_action :: 's

definition E2EStub_get_stub_custom_action ::
  "('e \<Rightarrow> string \<Rightarrow> 's option) \<Rightarrow> string \<Rightarrow> 'e \<Rightarrow> error + 's" where
  "E2EStub_get_stub_custom_action lookup action_name endpoint =
     (case lookup endpoint action_name of
        Some stub_custom_action \<Rightarrow> Inr stub_custom_action
      | None \<Rightarrow> Inl (RasaException (''Action `'' @ action_name @ ''` has not been stubbed.'')))"

definition E2EStub_init ::
  "('e \<Rightarrow> string \<Rightarrow> 's option) \<Rightarrow> string \<Rightarrow> 'e
     \<Rightarrow> error + ('e, 's) E2EStubCustomActionExecutor" where
  "E2EStub_init lookup action_name endpoint =
     (case E2EStub_get_stub_custom_action lookup action_name endpoint of
        Inl e \<Rightarrow> Inl e
      | Inr stub \<Rightarrow>
          Inr \<lparr>ex_action_name = action_name, ex_action_endpoint = endpoint,
               ex_stub_custom_action = stub\<rparr>)"

definition E2EStub_run ::
  "('s \<Rightarrow> 'r) \<Rightarrow> ('e, 's) E2EStubCustomActionExecutor \<Rightarrow> http_request list
     \<Rightarrow> 'r \<times> http_request list" where
  "E2EStub_run as_dict self network = (as_dict (ex_stub_custom_action self), network)"

section \<open>The configuration of the CRF entity extractor\<close>

text \<open>
  Of the component configuration only the entry \<open>features\<close> is read by the check:
  \<open>None\<close> is a configuration without that key.
\<close>

record component_config =
  cfg_features :: "string list list option"

definition crf_defaults :: component_config where
  "crf_defaults = \<lparr>cfg_features = Some
     [[''low'', ''title'', ''upper''],
      [''low'', ''bias'', ''prefix5'', ''prefix2'', ''suffix5'', ''suffix3'', ''suffix2'',
       ''upper'', ''title'', ''digit'', ''pattern''],
      [''low'', ''title'', ''upper'']]\<rparr>"

definition validate_configuration :: "component_config \<Rightarrow> error + unit" where
  "validate_configuration cfg =
     (if length (case cfg_features cfg of None \<Rightarrow> [] | Some fs \<Rightarrow> fs) mod 2 \<noteq> 1
      then Inl (ValueError ''Need an odd number of crf feature lists to have a center word.'')
      else Inr ())"

section \<open>The specification's wording of two conditions\<close>

text \<open>
  The intent check as the specification words it: the first conjunct tests the
  \<open>not_intent\<close> filter for emptiness.
\<close>

definition intent_is_desired_spec :: "slot_mapping \<Rightarrow> tracker \<Rightarrow> bool" where
  "intent_is_desired_spec requested_slot_mapping t =
     ((m_not_intent requested_slot_mapping = []
        \<and> \<not> py_in (intent_name (latest_message t)) (m_not_intent requested_slot_mapping))
      \<or> py_in (intent_name (latest_message t)) (m_intent requested_slot_mapping))"

text \<open>
  The condition for validation as the specification words it: the form was already
  active, the last action was the listen action, and validation is not disabled.
\<close>

definition validation_required_spec :: "form_action \<Rightarrow> tracker \<Rightarrow> bool" where
  "validation_required_spec self t =
     (af_name (active_form t) = Some (form_name self)
      \<and> latest_action_name t = Some ''action_listen''
      \<and> af_validate (active_form t) \<noteq> Some False)"

section \<open>A restaurant booking form\<close>

text \<open>
  The form \<open>book_restaurant\<close> requires the slots \<open>time\<close> and \<open>people\<close>. \<open>time\<close> is
  filled from the entity of that name; \<open>people\<close> from the entity \<open>people\<close> unless the
  intent is \<open>chitchat\<close>, or from the text of an \<open>inform\<close> message. The domain has no
  custom validation action.
\<close>

definition time_mapping :: slot_mapping where
  "time_mapping = \<lparr>m_type = VStr ''from_entity'', m_entity = VStr ''time'', m_intent = [],
     m_not_intent = [], m_role = None, m_group = None, m_value = VNone\<rparr>"

definition people_mapping :: slot_mapping where
  "people_mapping = \<lparr>m_type = VStr ''from_entity'', m_entity = VStr ''people'', m_intent = [],
     m_not_intent = [''chitchat''], m_role = None, m_group = None, m_value = VNone\<rparr>"

definition people_text_mapping :: slot_mapping where
  "people_text_mapping = \<lparr>m_type = VStr ''from_text'', m_entity = VNone,
     m_intent = [''inform''], m_not_intent = [], m_role = None, m_group = None,
     m_value = VNone\<rparr>"

definition restaurant_domain :: domain where
  "restaurant_domain = \<lparr>forms =
      [[(''book_restaurant'',
         [(''time'', CSingle (MDict time_mapping)),
          (''people'', CList [MDict people_mapping, MDict people_text_mapping])])]],
     action_names = [''action_listen'', ''book_restaurant'']\<rparr>"

definition restaurant_form :: form_action where
  "restaurant_form = \<lparr>form_name = ''book_restaurant'', self_domain = Some restaurant_domain,
     action_endpoint = (\<lambda>n t d. Inl (RemoteError ''no action server''))\<rparr>"

definition time_entity :: entity where
  "time_entity = \<lparr>e_entity = ''time'', e_value = VStr ''8pm'', e_role = None, e_group = None\<rparr>"

definition people_entity :: "string \<Rightarrow> entity" where
  "people_entity v = \<lparr>e_entity = ''people'', e_value = VStr v, e_role = None, e_group = None\<rparr>"

text \<open>The form is active and has asked for \<open>people\<close>; the user has just answered.\<close>

definition tracker_people_requested :: "string option \<Rightarrow> entity list \<Rightarrow> tracker" where
  "tracker_people_requested intent ents =
     \<lparr>slots = [REQUESTED_SLOT \<mapsto> VStr ''people''],
      latest_message = \<lparr>intent_name = intent, msg_text = Some ''hello'', entities = ents\<rparr>,
      active_form = \<lparr>af_name = Some ''book_restaurant'', af_validate = Some True\<rparr>,
      latest_action_name = Some ''action_listen''\<rparr>"

text \<open>No form is active yet; \<open>time\<close> is already known and the user names the party size.\<close>

definition tracker_before_activation :: tracker where
  "tracker_before_activation =
     \<lparr>slots = [''time'' \<mapsto> VStr ''8pm''],
      latest_message = \<lparr>intent_name = Some ''inform'', msg_text = Some ''for two'',
                         entities = [people_entity ''2'']\<rparr>,
      active_form = \<lparr>af_name = None, af_validate = None\<rparr>,
      latest_action_name = Some ''action_listen''\<rparr>"

definition tracker_time_set :: tracker where
  "tracker_time_set =
     \<lparr>slots = [''time'' \<mapsto> VStr ''8pm''],
      latest_message = \<lparr>intent_name = None, msg_text = None, entities = []\<rparr>,
      active_form = \<lparr>af_name = Some ''book_restaurant'', af_validate = Some True\<rparr>,
      latest_action_name = Some ''utter_ask_time''\<rparr>"

definition tracker_all_set :: tracker where
  "tracker_all_set =
     \<lparr>slots = [''time'' \<mapsto> VStr ''8pm'', ''people'' \<mapsto> VStr ''2''],
      latest_message = \<lparr>intent_name = None, msg_text = None, entities = []\<rparr>,
      active_form = \<lparr>af_name = Some ''book_restaurant'', af_validate = Some True\<rparr>,
      latest_action_name = Some ''utter_ask_people''\<rparr>"

text \<open>A first message to the bot: nothing is set and no form is active.\<close>

definition tracker_with_entities :: "entity list \<Rightarrow> tracker" where
  "tracker_with_entities ents =
     \<lparr>slots = Map.empty,
      latest_message = \<lparr>intent_name = Some ''inform'', msg_text = Some ''hello'', entities = ents\<rparr>,
      active_form = \<lparr>af_name = None, af_validate = None\<rparr>,
      latest_action_name = Some ''action_listen''\<rparr>"

text \<open>
  The form \<open>book_flight\<close> lists the slot \<open>destination\<close> as required and configures
  what \<open>c\<close> says for it. The form has asked for \<open>destination\<close> and the user names
  Paris, which the message carries as an entity \<open>destination\<close>.
\<close>

definition flight_domain :: "slot_config \<Rightarrow> domain" where
  "flight_domain c = \<lparr>forms = [[(''book_flight'', [(''destination'', c)])]],
     action_names = [''action_listen'', ''book_flight'']\<rparr>"

definition flight_form :: "slot_config \<Rightarrow> form_action" where
  "flight_form c = \<lparr>form_name = ''book_flight'', self_domain = Some (flight_domain c),
     action_endpoint = (\<lambda>n t d. Inl (RemoteError ''no action server''))\<rparr>"

definition tracker_destination_requested :: tracker where
  "tracker_destination_requested =
     \<lparr>slots = [REQUESTED_SLOT \<mapsto> VStr ''destination''],
      latest_message = \<lparr>intent_name = Some ''inform'', msg_text = Some ''to Paris'',
         entities = [\<lparr>e_entity = ''destination'', e_value = VStr ''Paris'', e_role = None,
                      e_group = None\<rparr>]\<rparr>,
      active_form = \<lparr>af_name = Some ''book_flight'', af_validate = Some True\<rparr>,
      latest_action_name = Some ''action_listen''\<rparr>"

text \<open>
  A domain with a custom validation action for \<open>book_restaurant\<close>, whose remote
  validator cancels the form; and a tracker in which another form is active and the
  user has just named a time.
\<close>

definition validating_domain :: domain where
  "validating_domain = \<lparr>forms = forms restaurant_domain,
     action_names = [''action_listen'', ''book_restaurant'',
                     ''action_validate_book_restaurant'']\<rparr>"

definition cancelling_form :: form_action where
  "cancelling_form = \<lparr>form_name = ''book_restaurant'', self_domain = Some validating_domain,
     action_endpoint = (\<lambda>n t d. Inr [Form None])\<rparr>"

definition tracker_other_form_active :: tracker where
  "tracker_other_form_active =
     \<lparr>slots = Map.empty,
      latest_message = \<lparr>intent_name = Some ''inform'', msg_text = Some ''at 8pm'',
                         entities = [time_entity]\<rparr>,
      active_form = \<lparr>af_name = Some ''feedback_form'', af_validate = Some True\<rparr>,
      latest_action_name = Some ''action_listen''\<rparr>"

text \<open>
  Three environments of an interactive session. In the first the server cannot execute
  the action but logs events: it answers a post to the tracker events of conversation
  \<open>c1\<close> with the event it stored, and nothing else. In the second no request gets
  through. A user either confirms every warning or leaves through the quit menu.
\<close>

definition failing_execute_endpoint :: "http_request \<Rightarrow> error + action_executed_dict" where
  "failing_execute_endpoint req =
     (if req_method req = ''post'' \<and> req_subpath req = ''/conversations/c1/tracker/events''
      then Inr (req_json req)
      else Inl ClientError)"

definition unreachable_endpoint :: "http_request \<Rightarrow> error + action_executed_dict" where
  "unreachable_endpoint req = Inl ClientError"

definition confirming_user :: "question \<Rightarrow> error + bool" where
  "confirming_user q = Inr True"

definition aborting_user :: "question \<Rightarrow> error + bool" where
  "aborting_user q = Inl Abort"

text \<open>
  An endpoint of an end-to-end test, reduced to its registered stubs: each action name
  with the events recorded for it.
\<close>

definition stub_registry :: "(string \<times> string list) list \<Rightarrow> string \<Rightarrow> string list option" where
  "stub_registry stubs action_name = map_of stubs action_name"

section \<open>Unfolding the model on concrete inputs\<close>

lemmas ex_defs = time_mapping_def people_mapping_def people_text_mapping_def
  restaurant_domain_def restaurant_form_def time_entity_def people_entity_def
  tracker_people_requested_def tracker_before_activation_def tracker_time_set_def
  tracker_all_set_def tracker_with_entities_def tracker_destination_requested_def
  flight_domain_def flight_form_def validating_domain_def cancelling_form_def
  tracker_other_form_active_def REQUESTED_SLOT_def

lemmas form_defs = validate_def extract_other_slots_def extract_requested_slot_def
  required_slots_def config_def slot_mappings_def get_mappings_for_slot_def dict_get_def
  from_entity_def list_intents_def intent_is_desired_def entity_is_desired_def
  get_entity_value_def get_latest_entity_values_def requested_mapping_value_def
  validate_slots_def should_request_slot_def

lemmas run_defs = run_def activate_if_required_def validate_if_required_def
  request_next_slot_def from_events_def deactivate_def

section \<open>Rejection when nothing was extracted\<close>

text \<open>
  C1, as the code has it: when a slot is requested and the user input yields no value at
  all, neither for the requested slot nor for any other required slot, \<open>validate\<close>
  raises \<open>ActionExecutionRejection\<close> instead of returning events.
\<close>

theorem validate_rejects_when_nothing_extracted:
  assumes "truthy (get_slot t (VStr REQUESTED_SLOT))"
    and "extract_other_slots self t = Inr []"
    and "extract_requested_slot self t = Inr []"
  shows "validate self t d =
           Inl (ActionExecutionRejection (form_name self) (get_slot t (VStr REQUESTED_SLOT)))"
  using assms by (simp add: validate_def)

text \<open>
  Scenario C: \<open>people\<close> is requested, the message has no entities and its intent
  \<open>chitchat\<close> is excluded by every mapping of \<open>people\<close>.
\<close>

theorem validate_rejects_when_nothing_extracted_witness:
  "truthy (get_slot (tracker_people_requested (Some ''chitchat'') []) (VStr REQUESTED_SLOT))
   \<and> extract_other_slots restaurant_form (tracker_people_requested (Some ''chitchat'') []) = Inr []
   \<and> extract_requested_slot restaurant_form (tracker_people_requested (Some ''chitchat'') []) = Inr []
   \<and> validate restaurant_form (tracker_people_requested (Some ''chitchat'') []) restaurant_domain
       = Inl (ActionExecutionRejection ''book_restaurant'' (VStr ''people''))"
proof -
  let ?t = "tracker_people_requested (Some ''chitchat'') []"
  have a: "truthy (get_slot ?t (VStr REQUESTED_SLOT))" by (simp add: ex_defs)
  have b: "extract_other_slots restaurant_form ?t = Inr []" by (simp add: ex_defs form_defs)
  have c: "extract_requested_slot restaurant_form ?t = Inr []" by (simp add: ex_defs form_defs)
  have n: "form_name restaurant_form = ''book_restaurant''" by (simp add: ex_defs)
  have g: "get_slot ?t (VStr REQUESTED_SLOT) = VStr ''people''" by (simp add: ex_defs)
  from validate_rejects_when_nothing_extracted [OF a b c, of restaurant_domain] a b c n g
  show ?thesis by simp
qed

text \<open>
  The claim as stated fails: \<open>people\<close> is requested and nothing is extracted for it, but
  the message carries a \<open>time\<close> entity, so \<open>validate\<close> returns the event for \<open>time\<close>
  and does not reject.
\<close>

theorem validate_requested_not_extracted_counterexample:
  "truthy (get_slot (tracker_people_requested (Some ''chitchat'') [time_entity]) (VStr REQUESTED_SLOT))
   \<and> extract_requested_slot restaurant_form
        (tracker_people_requested (Some ''chitchat'') [time_entity]) = Inr []
   \<and> validate restaurant_form (tracker_people_requested (Some ''chitchat'') [time_entity])
        restaurant_domain = Inr [SlotSet (VStr ''time'') (VStr ''8pm'')]"
  by (simp add: ex_defs form_defs)

section \<open>The intent condition of a mapping\<close>

text \<open>
  C2, as the code has it: the intent check of a mapping passes if and only if the
  mapping's \<open>intent\<close> filter is empty and the current intent is not in its
  \<open>not_intent\<close> filter, or the current intent is in its \<open>intent\<close> filter.
\<close>

theorem intent_is_desired_iff:
  "intent_is_desired m t \<longleftrightarrow>
     (m_intent m = [] \<and> \<not> py_in (intent_name (latest_message t)) (m_not_intent m))
     \<or> py_in (intent_name (latest_message t)) (m_intent m)"
  by (auto simp: intent_is_desired_def Let_def)

theorem intent_is_desired_iff_witness:
  "intent_is_desired people_mapping (tracker_people_requested (Some ''inform'') [])
   \<and> \<not> intent_is_desired people_mapping (tracker_people_requested (Some ''chitchat'') [])
   \<and> intent_is_desired people_text_mapping (tracker_people_requested (Some ''inform'') [])
   \<and> \<not> intent_is_desired people_text_mapping (tracker_people_requested (Some ''chitchat'') [])"
  using intent_is_desired_iff [of people_mapping "tracker_people_requested (Some ''inform'') []"]
    intent_is_desired_iff [of people_mapping "tracker_people_requested (Some ''chitchat'') []"]
    intent_is_desired_iff [of people_text_mapping "tracker_people_requested (Some ''inform'') []"]
    intent_is_desired_iff [of people_text_mapping
      "tracker_people_requested (Some ''chitchat'') []"]
  by (simp add: ex_defs)

text \<open>
  The specification's wording tests the wrong filter for emptiness: a mapping that only
  excludes \<open>chitchat\<close> accepts the intent \<open>inform\<close> in the code, and not in the
  specification's reading.
\<close>

theorem intent_is_desired_spec_counterexample:
  "intent_is_desired people_mapping (tracker_people_requested (Some ''inform'') [])
   \<and> \<not> intent_is_desired_spec people_mapping (tracker_people_requested (Some ''inform'') [])"
  by (simp add: ex_defs intent_is_desired_def intent_is_desired_spec_def)

section \<open>When user input is validated\<close>

text \<open>
  C3, as the code has it: the user input is extracted and validated if and only if the
  last action of the tracker is \<open>action_listen\<close> and validation is not disabled in the
  active-form descriptor, whether or not the form was already active; otherwise validation
  is skipped and gives no events.
\<close>

theorem validate_if_required_condition:
  "validate_if_required self t d =
     (if latest_action_name t = Some ''action_listen'' \<and> af_validate (active_form t) \<noteq> Some False
      then validate self t d else Inr [])"
  by (auto simp: validate_if_required_def split: option.splits)

theorem validate_if_required_condition_witness:
  "validate_if_required restaurant_form tracker_before_activation restaurant_domain
     = validate restaurant_form tracker_before_activation restaurant_domain
   \<and> validate_if_required restaurant_form tracker_time_set restaurant_domain = Inr []"
  using validate_if_required_condition [of restaurant_form tracker_before_activation
      restaurant_domain]
    validate_if_required_condition [of restaurant_form tracker_time_set restaurant_domain]
  by (simp add: tracker_before_activation_def tracker_time_set_def)

text \<open>
  The form is not active yet and the user message follows \<open>action_listen\<close>: the
  specification's condition does not hold, and the input is validated all the same.
\<close>

theorem validate_if_required_counterexample:
  "\<not> validation_required_spec restaurant_form tracker_before_activation
   \<and> validate_if_required restaurant_form tracker_before_activation restaurant_domain
       = Inr [SlotSet (VStr ''people'') (VStr ''2'')]"
  by (simp add: ex_defs form_defs validation_required_spec_def validate_if_required_def)

section \<open>Requesting the next slot\<close>

lemma request_next_slot_loop_first:
  "\<forall>x\<in>set pre. \<not> should_request_slot t x \<Longrightarrow> should_request_slot t s \<Longrightarrow>
     request_next_slot_loop t (pre @ s # post) = Some [SlotSet (VStr REQUESTED_SLOT) (VStr s)]"
  by (induction pre) auto

lemma request_next_slot_loop_none:
  "\<forall>x\<in>set rs. \<not> should_request_slot t x \<Longrightarrow> request_next_slot_loop t rs = None"
  by (induction rs) auto

lemma run_cases:
  assumes "activate_if_required (self\<lparr>self_domain := Some d\<rparr>) t d = Inr activation_events"
    and "validate_if_required (self\<lparr>self_domain := Some d\<rparr>) t d = Inr events"
  shows "run self t d =
     (if Form None \<notin> set events
      then (case request_next_slot (self\<lparr>self_domain := Some d\<rparr>) (from_events t events) of
              Inl e \<Rightarrow> Inl e
            | Inr (Some next_slot_events) \<Rightarrow> Inr (activation_events @ events @ next_slot_events)
            | Inr None \<Rightarrow> Inr (events @ deactivate))
      else Inr events)"
  using assms by (simp add: run_def Let_def)

text \<open>
  C4: \<open>request_next_slot\<close> goes through the required slots in their declared order and
  returns \<open>[SlotSet(requested_slot, name)]\<close> for the first slot whose value in the tracker
  is \<open>None\<close>; if every required slot is set it returns \<open>None\<close>, and \<open>run\<close> then ends
  its events with \<open>Form(None)\<close> followed by \<open>SlotSet(requested_slot, None)\<close>.
\<close>

theorem request_next_slot_first_unset:
  "(required_slots self = Inr (pre @ s # post)
      \<and> (\<forall>x\<in>set pre. get_slot t (VStr x) \<noteq> VNone) \<and> get_slot t (VStr s) = VNone
     \<longrightarrow> request_next_slot self t = Inr (Some [SlotSet (VStr REQUESTED_SLOT) (VStr s)]))
   \<and> (required_slots self = Inr rs \<and> (\<forall>x\<in>set rs. get_slot t (VStr x) \<noteq> VNone)
     \<longrightarrow> request_next_slot self t = Inr None)
   \<and> (activate_if_required (self\<lparr>self_domain := Some d\<rparr>) t d = Inr activation_events
      \<and> validate_if_required (self\<lparr>self_domain := Some d\<rparr>) t d = Inr events
      \<and> Form None \<notin> set events
      \<and> request_next_slot (self\<lparr>self_domain := Some d\<rparr>) (from_events t events) = Inr None
     \<longrightarrow> run self t d = Inr (events @ [Form None, SlotSet (VStr REQUESTED_SLOT) VNone]))"
proof (intro conjI impI)
  assume a: "required_slots self = Inr (pre @ s # post)
      \<and> (\<forall>x\<in>set pre. get_slot t (VStr x) \<noteq> VNone) \<and> get_slot t (VStr s) = VNone"
  then have "request_next_slot_loop t (pre @ s # post)
               = Some [SlotSet (VStr REQUESTED_SLOT) (VStr s)]"
    by (intro request_next_slot_loop_first) (simp_all add: should_request_slot_def)
  with a show "request_next_slot self t = Inr (Some [SlotSet (VStr REQUESTED_SLOT) (VStr s)])"
    by (simp add: request_next_slot_def)
next
  assume a: "required_slots self = Inr rs \<and> (\<forall>x\<in>set rs. get_slot t (VStr x) \<noteq> VNone)"
  then have "request_next_slot_loop t rs = None"
    by (intro request_next_slot_loop_none) (simp add: should_request_slot_def)
  with a show "request_next_slot self t = Inr None"
    by (simp add: request_next_slot_def)
next
  assume a: "activate_if_required (self\<lparr>self_domain := Some d\<rparr>) t d = Inr activation_events
      \<and> validate_if_required (self\<lparr>self_domain := Some d\<rparr>) t d = Inr events
      \<and> Form None \<notin> set events
      \<and> request_next_slot (self\<lparr>self_domain := Some d\<rparr>) (from_events t events) = Inr None"
  then show "run self t d = Inr (events @ [Form None, SlotSet (VStr REQUESTED_SLOT) VNone])"
    by (simp add: run_cases [where activation_events = activation_events] deactivate_def)
qed

text \<open>
  Scenario B (\<open>time\<close> is set, \<open>people\<close> is not), a tracker with both slots set, and a
  run in which the last missing slot is filled by the user's message.
\<close>

theorem request_next_slot_first_unset_witness:
  "request_next_slot restaurant_form tracker_time_set
      = Inr (Some [SlotSet (VStr REQUESTED_SLOT) (VStr ''people'')])
   \<and> request_next_slot restaurant_form tracker_all_set = Inr None
   \<and> run restaurant_form tracker_before_activation restaurant_domain
      = Inr ([SlotSet (VStr ''people'') (VStr ''2'')]
             @ [Form None, SlotSet (VStr REQUESTED_SLOT) VNone])"
proof -
  have r: "required_slots restaurant_form = Inr ([''time''] @ ''people'' # [])"
    by (simp add: ex_defs form_defs)
  have r': "required_slots restaurant_form = Inr [''time'', ''people'']"
    by (simp add: ex_defs form_defs)
  have s: "restaurant_form\<lparr>self_domain := Some restaurant_domain\<rparr> = restaurant_form"
    by (simp add: restaurant_form_def)
  have 1: "request_next_slot restaurant_form tracker_time_set
      = Inr (Some [SlotSet (VStr REQUESTED_SLOT) (VStr ''people'')])"
    using request_next_slot_first_unset [where self = restaurant_form and pre = "[''time'']"
        and s = "''people''" and post = "[]" and t = tracker_time_set] r
    by (simp add: ex_defs)
  have 2: "request_next_slot restaurant_form tracker_all_set = Inr None"
    using request_next_slot_first_unset [where self = restaurant_form and t = tracker_all_set
        and rs = "[''time'', ''people'']"] r'
    by (simp add: ex_defs)
  have a: "activate_if_required restaurant_form tracker_before_activation restaurant_domain
             = Inr [Form (Some ''book_restaurant''), SlotSet (VStr ''time'') (VStr ''8pm'')]"
    by (simp add: ex_defs form_defs run_defs)
  have v: "validate_if_required restaurant_form tracker_before_activation restaurant_domain
             = Inr [SlotSet (VStr ''people'') (VStr ''2'')]"
    by (simp add: ex_defs form_defs run_defs)
  have n: "request_next_slot restaurant_form
             (from_events tracker_before_activation [SlotSet (VStr ''people'') (VStr ''2'')])
           = Inr None"
    by (simp add: ex_defs form_defs run_defs)
  have 3: "run restaurant_form tracker_before_activation restaurant_domain
      = Inr ([SlotSet (VStr ''people'') (VStr ''2'')]
             @ [Form None, SlotSet (VStr REQUESTED_SLOT) VNone])"
    using request_next_slot_first_unset [where self = restaurant_form
        and d = restaurant_domain and t = tracker_before_activation
        and activation_events =
          "[Form (Some ''book_restaurant''), SlotSet (VStr ''time'') (VStr ''8pm'')]"
        and events = "[SlotSet (VStr ''people'') (VStr ''2'')]"] a v n s
    by simp
  from 1 2 3 show ?thesis by simp
qed

section \<open>The value of an entity\<close>

text \<open>
  C5: \<open>get_entity_value\<close> returns \<open>None\<close> when no entity value of the latest user message
  matches the entity, role and group, the value itself when exactly one matches, and the
  whole list of values, in order, when more than one matches.
\<close>

theorem get_entity_value_by_match_count:
  "(get_latest_entity_values t name grp role = [] \<longrightarrow> get_entity_value name t role grp = VNone)
   \<and> (get_latest_entity_values t name grp role = [v] \<longrightarrow> get_entity_value name t role grp = v)
   \<and> (1 < length (get_latest_entity_values t name grp role)
        \<longrightarrow> get_entity_value name t role grp = VList (get_latest_entity_values t name grp role))"
  by (simp add: get_entity_value_def Let_def)

theorem get_entity_value_by_match_count_witness:
  "get_entity_value (VStr ''people'') (tracker_with_entities [time_entity]) None None = VNone
   \<and> get_entity_value (VStr ''people'')
        (tracker_with_entities [time_entity, people_entity ''2'']) None None = VStr ''2''
   \<and> get_entity_value (VStr ''people'')
        (tracker_with_entities [people_entity ''2'', time_entity, people_entity ''3'']) None None
      = VList [VStr ''2'', VStr ''3'']"
proof -
  have a: "get_latest_entity_values (tracker_with_entities [time_entity]) (VStr ''people'')
             None None = []"
    by (simp add: get_latest_entity_values_def ex_defs)
  have b: "get_latest_entity_values (tracker_with_entities [time_entity, people_entity ''2''])
             (VStr ''people'') None None = [VStr ''2'']"
    by (simp add: get_latest_entity_values_def ex_defs)
  have c: "get_latest_entity_values
             (tracker_with_entities [people_entity ''2'', time_entity, people_entity ''3''])
             (VStr ''people'') None None = [VStr ''2'', VStr ''3'']"
    by (simp add: get_latest_entity_values_def ex_defs)
  show ?thesis
    using get_entity_value_by_match_count [of "tracker_with_entities [time_entity]"
        "VStr ''people''" None None] a
      get_entity_value_by_match_count [of "tracker_with_entities [time_entity, people_entity ''2'']"
        "VStr ''people''" None None "VStr ''2''"] b
      get_entity_value_by_match_count [of
        "tracker_with_entities [people_entity ''2'', time_entity, people_entity ''3'']"
        "VStr ''people''" None None] c
    by simp
qed

section \<open>The implicit mapping of a slot\<close>

text \<open>
  Where the slot mappings do not mention a slot at all, the default of \<open>dict.get\<close>
  applies: \<open>get_mappings_for_slot\<close> returns \<open>[from_entity(slot_name)]\<close> and extracting
  the requested slot gives the value of the entity named like the slot.
\<close>

lemma get_mappings_for_slot_absent_key:
  assumes "slot_mappings self = Inr sm" and "map_of sm slot = None"
  shows "get_mappings_for_slot self (VStr slot)
           = Inr [\<lparr>m_type = VStr ''from_entity'', m_entity = VStr slot, m_intent = [],
                   m_not_intent = [], m_role = None, m_group = None, m_value = VNone\<rparr>]
         \<and> (get_slot t (VStr REQUESTED_SLOT) = VStr slot \<longrightarrow>
              extract_requested_slot self t
              = (if get_entity_value (VStr slot) t None None \<noteq> VNone
                 then Inr [(VStr slot, get_entity_value (VStr slot) t None None)]
                 else Inr []))"
proof -
  have g: "get_mappings_for_slot self (VStr slot)
           = Inr [\<lparr>m_type = VStr ''from_entity'', m_entity = VStr slot, m_intent = [],
                   m_not_intent = [], m_role = None, m_group = None, m_value = VNone\<rparr>]"
    using assms
    by (simp add: get_mappings_for_slot_def from_entity_def list_intents_def dict_get_def)
  have e: "get_slot t (VStr REQUESTED_SLOT) = VStr slot \<longrightarrow>
              extract_requested_slot self t
              = (if get_entity_value (VStr slot) t None None \<noteq> VNone
                 then Inr [(VStr slot, get_entity_value (VStr slot) t None None)]
                 else Inr [])"
    by (simp add: extract_requested_slot_def g intent_is_desired_def
        requested_mapping_value_def Let_def)
  from g e show ?thesis by simp
qed

text \<open>
  Once the domain is stored, the required slots are the keys of the very dictionary
  that \<open>slot_mappings\<close> returns: the default never applies to a required slot.
\<close>

lemma required_slot_is_key_of_slot_mappings:
  assumes "self_domain self = Some d" and "required_slots self = Inr rs"
    and "slot_mappings self = Inr sm" and "slot \<in> set rs"
  shows "map_of sm slot \<noteq> None"
proof -
  from assms(1,2,3) have "rs = map fst sm"
    by (auto simp: required_slots_def slot_mappings_def split: sum.splits)
  with assms(4) show ?thesis
    by (simp add: map_of_eq_None_iff)
qed


section \<open>A transport failure while logging an action\<close>

text \<open>
  C7, as the code has it: when the request that executes the action fails with a client
  error, \<open>send_action\<close> raises that error again for a known action. For a new action it
  shows a warning and, once the warning is answered, posts a bare \<open>ActionExecuted\<close>
  event of that action name, without policy and confidence, to the tracker events of the
  conversation; the client error is not raised again, and when that post succeeds its
  response is returned and the session continues. An exception from the warning or from
  the post goes to the caller.
\<close>

theorem send_action_client_error:
  assumes "endpoint \<lparr>req_method = ''post'',
                     req_subpath = ''/conversations/'' @ conversation_id @ ''/execute'',
                     req_json = \<lparr>ae_name = action_name, ae_policy = policy,
                                 ae_confidence = confidence\<rparr>\<rparr> = Inl ClientError"
  shows "(\<not> is_new_action \<longrightarrow>
            send_action endpoint ask NEW_TEMPLATES conversation_id action_name policy confidence
              is_new_action = Inl ClientError)
       \<and> (is_new_action \<longrightarrow>
            send_action endpoint ask NEW_TEMPLATES conversation_id action_name policy confidence
              is_new_action
            = (case (case NEW_TEMPLATES action_name of
                       Some response \<Rightarrow> ask (NewActionWithResponse action_name response)
                     | None \<Rightarrow> ask (NewActionNotExecuted action_name)) of
                 Inl e \<Rightarrow> Inl e
               | Inr answer \<Rightarrow>
                   endpoint \<lparr>req_method = ''post'',
                     req_subpath = ''/conversations/'' @ conversation_id @ ''/tracker/events'',
                     req_json = \<lparr>ae_name = action_name, ae_policy = None,
                                 ae_confidence = None\<rparr>\<rparr>))
       \<and> (is_new_action
            \<and> (case NEW_TEMPLATES action_name of
                  Some response \<Rightarrow> ask (NewActionWithResponse action_name response)
                | None \<Rightarrow> ask (NewActionNotExecuted action_name)) = Inr answer
            \<and> endpoint \<lparr>req_method = ''post'',
                     req_subpath = ''/conversations/'' @ conversation_id @ ''/tracker/events'',
                     req_json = \<lparr>ae_name = action_name, ae_policy = None,
                                 ae_confidence = None\<rparr>\<rparr> = Inr logged
          \<longrightarrow> send_action endpoint ask NEW_TEMPLATES conversation_id action_name policy
                confidence is_new_action = Inr logged)"
  unfolding send_action_def send_event_def Let_def using assms by simp

text \<open>
  Scenario E: the same failure for the known action \<open>action_book\<close> and for the new
  action \<open>action_new\<close>. The server stores the event of the new action without the
  policy the action was sent with.
\<close>

theorem send_action_client_error_witness:
  "send_action failing_execute_endpoint confirming_user Map.empty ''c1'' ''action_book''
       (Some ''policy_0'') None False = Inl ClientError
   \<and> send_action failing_execute_endpoint confirming_user Map.empty ''c1'' ''action_new''
       (Some ''policy_0'') None True
     = Inr \<lparr>ae_name = ''action_new'', ae_policy = None, ae_confidence = None\<rparr>
   \<and> send_action failing_execute_endpoint confirming_user [''action_new'' \<mapsto> ''Hello!'']
       ''c1'' ''action_new'' (Some ''policy_0'') None True
     = Inr \<lparr>ae_name = ''action_new'', ae_policy = None, ae_confidence = None\<rparr>"
proof -
  have a: "failing_execute_endpoint \<lparr>req_method = ''post'',
             req_subpath = ''/conversations/'' @ ''c1'' @ ''/execute'',
             req_json = \<lparr>ae_name = ''action_book'', ae_policy = Some ''policy_0'',
                         ae_confidence = None\<rparr>\<rparr> = Inl ClientError"
    by (simp add: failing_execute_endpoint_def)
  have b: "failing_execute_endpoint \<lparr>req_method = ''post'',
             req_subpath = ''/conversations/'' @ ''c1'' @ ''/execute'',
             req_json = \<lparr>ae_name = ''action_new'', ae_policy = Some ''policy_0'',
                         ae_confidence = None\<rparr>\<rparr> = Inl ClientError"
    by (simp add: failing_execute_endpoint_def)
  have e: "failing_execute_endpoint \<lparr>req_method = ''post'',
             req_subpath = ''/conversations/'' @ ''c1'' @ ''/tracker/events'',
             req_json = \<lparr>ae_name = ''action_new'', ae_policy = None,
                         ae_confidence = None\<rparr>\<rparr>
           = Inr \<lparr>ae_name = ''action_new'', ae_policy = None, ae_confidence = None\<rparr>"
    by (simp add: failing_execute_endpoint_def)
  from send_action_client_error [where endpoint = failing_execute_endpoint
        and conversation_id = "''c1''" and action_name = "''action_book''"
        and policy = "Some ''policy_0''" and confidence = None and is_new_action = False
        and ask = confirming_user and NEW_TEMPLATES = Map.empty] a
    send_action_client_error [where endpoint = failing_execute_endpoint
        and conversation_id = "''c1''" and action_name = "''action_new''"
        and policy = "Some ''policy_0''" and confidence = None and is_new_action = True
        and ask = confirming_user and NEW_TEMPLATES = Map.empty and answer = True
        and logged = "\<lparr>ae_name = ''action_new'', ae_policy = None, ae_confidence = None\<rparr>"]
    send_action_client_error [where endpoint = failing_execute_endpoint
        and conversation_id = "''c1''" and action_name = "''action_new''"
        and policy = "Some ''policy_0''" and confidence = None and is_new_action = True
        and ask = confirming_user and NEW_TEMPLATES = "[''action_new'' \<mapsto> ''Hello!'']"
        and answer = True
        and logged = "\<lparr>ae_name = ''action_new'', ae_policy = None, ae_confidence = None\<rparr>"]
    b e
  show ?thesis by (simp add: confirming_user_def)
qed

text \<open>
  The claim as stated fails: for a new action whose execution fails with a client error,
  no event is logged and an exception reaches the caller when the post of the event
  fails as well, or when the user leaves through the quit menu of the warning.
\<close>

theorem send_action_new_action_counterexample:
  "unreachable_endpoint \<lparr>req_method = ''post'', req_subpath = ''/conversations/c1/execute'',
      req_json = \<lparr>ae_name = ''action_new'', ae_policy = None, ae_confidence = None\<rparr>\<rparr>
     = Inl ClientError
   \<and> send_action unreachable_endpoint confirming_user Map.empty ''c1'' ''action_new''
       None None True = Inl ClientError
   \<and> failing_execute_endpoint \<lparr>req_method = ''post'',
      req_subpath = ''/conversations/c1/execute'',
      req_json = \<lparr>ae_name = ''action_new'', ae_policy = None, ae_confidence = None\<rparr>\<rparr>
     = Inl ClientError
   \<and> send_action failing_execute_endpoint aborting_user Map.empty ''c1'' ''action_new''
       None None True = Inl Abort"
  by (simp add: send_action_def send_event_def unreachable_endpoint_def
      failing_execute_endpoint_def confirming_user_def aborting_user_def)

section \<open>Running a stubbed action\<close>

text \<open>
  C8: when no stub is registered for the action name, creating the stub executor raises a
  \<open>RasaException\<close> whose message names the action; when a stub is registered, the
  executor is created and running it returns the dictionary of that stub and leaves the
  network untouched.
\<close>

theorem stub_executor_returns_stub_or_fails:
  "(lookup endpoint action_name = None \<longrightarrow>
      E2EStub_init lookup action_name endpoint
        = Inl (RasaException (''Action `'' @ action_name @ ''` has not been stubbed.'')))
   \<and> (lookup endpoint action_name = Some stub \<longrightarrow>
        (\<exists>self. E2EStub_init lookup action_name endpoint = Inr self
           \<and> E2EStub_run as_dict self network = (as_dict stub, network)))"
  by (simp add: E2EStub_init_def E2EStub_get_stub_custom_action_def E2EStub_run_def)

theorem stub_executor_returns_stub_or_fails_witness:
  "E2EStub_init stub_registry ''new_action'' [(''action_check_balance'', [''slot balance=10''])]
     = Inl (RasaException ''Action `new_action` has not been stubbed.'')
   \<and> (\<exists>self. E2EStub_init stub_registry ''action_check_balance''
                [(''action_check_balance'', [''slot balance=10''])] = Inr self
         \<and> E2EStub_run (Pair ''events'') self [] = ((''events'', [''slot balance=10'']), []))"
  using stub_executor_returns_stub_or_fails [where lookup = stub_registry
      and endpoint = "[(''action_check_balance'', [''slot balance=10''])]"
      and action_name = "''new_action''"]
    stub_executor_returns_stub_or_fails [where lookup = stub_registry
      and endpoint = "[(''action_check_balance'', [''slot balance=10''])]"
      and action_name = "''action_check_balance''"
      and stub = "[''slot balance=10'']" and as_dict = "Pair ''events''" and network = "[]"]
  by (simp add: stub_registry_def)

section \<open>The number of feature lists of the CRF extractor\<close>

text \<open>
  C9, as the code has it: a configuration whose list of feature lists has even length is
  a fatal error, raised as a \<open>ValueError\<close> when the configuration is validated and
  never corrected.
\<close>

theorem validate_configuration_even:
  "cfg_features cfg = Some fs \<and> even (length fs) \<longrightarrow>
     validate_configuration cfg
       = Inl (ValueError ''Need an odd number of crf feature lists to have a center word.'')"
  by (auto simp: validate_configuration_def odd_iff_mod_2_eq_one)

theorem validate_configuration_even_witness:
  "validate_configuration \<lparr>cfg_features = Some [[''low''], [''low'', ''bias'']]\<rparr>
     = Inl (ValueError ''Need an odd number of crf feature lists to have a center word.'')"
  using validate_configuration_even [of "\<lparr>cfg_features = Some [[''low''], [''low'', ''bias'']]\<rparr>"
      "[[''low''], [''low'', ''bias'']]"]
  by simp

text \<open>
  The default configuration has three feature lists, an odd number, and passes the check.
\<close>

theorem validate_configuration_odd_counterexample:
  "cfg_features crf_defaults = Some
     [[''low'', ''title'', ''upper''],
      [''low'', ''bias'', ''prefix5'', ''prefix2'', ''suffix5'', ''suffix3'', ''suffix2'',
       ''upper'', ''title'', ''digit'', ''pattern''],
      [''low'', ''title'', ''upper'']]
   \<and> odd (length (the (cfg_features crf_defaults)))
   \<and> validate_configuration crf_defaults = Inr ()"
  by (simp add: validate_configuration_def crf_defaults_def)

section \<open>Activation events of a form that finishes at once\<close>

text \<open>
  C10: when \<open>run\<close> activates the form, the activation events begin with
  \<open>Form(form_name)\<close>. If validation did not deactivate the form and no required slot
  remains unset, \<open>run\<close> returns the validation events followed by the deactivation events,
  without the activation events. The activation events are in the returned list only if a
  next slot is requested, where they lead it: if validation deactivated the form, \<open>run\<close>
  returns the validation events alone, and if the required slots cannot be read it
  returns no events at all.
\<close>

theorem run_omits_activation_events_when_finished:
  assumes "af_name (active_form t) \<noteq> Some (form_name self)"
    and "activate_if_required (self\<lparr>self_domain := Some d\<rparr>) t d = Inr activation_events"
    and "validate_if_required (self\<lparr>self_domain := Some d\<rparr>) t d = Inr events"
  shows "(\<exists>prefill. activation_events = Form (Some (form_name self)) # prefill)
       \<and> (Form None \<notin> set events
           \<and> request_next_slot (self\<lparr>self_domain := Some d\<rparr>) (from_events t events) = Inr None
           \<longrightarrow> run self t d = Inr (events @ deactivate)
             \<and> (Form (Some (form_name self)) \<notin> set events
                  \<longrightarrow> Form (Some (form_name self)) \<notin> set (events @ deactivate)))
       \<and> (Form None \<notin> set events
           \<and> request_next_slot (self\<lparr>self_domain := Some d\<rparr>) (from_events t events)
               = Inr (Some next_slot_events)
           \<longrightarrow> run self t d = Inr (activation_events @ events @ next_slot_events))
       \<and> (Form None \<notin> set events
           \<and> request_next_slot (self\<lparr>self_domain := Some d\<rparr>) (from_events t events) = Inl e
           \<longrightarrow> run self t d = Inl e)
       \<and> (Form None \<in> set events \<longrightarrow> run self t d = Inr events)"
proof -
  have h: "\<exists>prefill. activation_events = Form (Some (form_name self)) # prefill"
    using assms(1,2)
    by (auto simp: activate_if_required_def Let_def split: sum.splits if_splits)
  have r: "run self t d =
     (if Form None \<notin> set events
      then (case request_next_slot (self\<lparr>self_domain := Some d\<rparr>) (from_events t events) of
              Inl e \<Rightarrow> Inl e
            | Inr (Some next_slot_events) \<Rightarrow> Inr (activation_events @ events @ next_slot_events)
            | Inr None \<Rightarrow> Inr (events @ deactivate))
      else Inr events)"
    using run_cases [OF assms(2,3)] by simp
  from h r show ?thesis by (simp add: deactivate_def)
qed

text \<open>
  The form is activated with \<open>time\<close> already known and the message supplies \<open>people\<close>:
  the form finishes at once and \<open>Form(book_restaurant)\<close> is not returned. On a first
  message without entities the form asks for \<open>time\<close> and the activation event is
  returned. When another form is active and the remote validator cancels the form, only
  the validator's \<open>Form(None)\<close> is returned.
\<close>

theorem run_omits_activation_events_when_finished_witness:
  "run restaurant_form tracker_before_activation restaurant_domain
     = Inr [SlotSet (VStr ''people'') (VStr ''2''), Form None, SlotSet (VStr REQUESTED_SLOT) VNone]
   \<and> activate_if_required restaurant_form tracker_before_activation restaurant_domain
     = Inr [Form (Some ''book_restaurant''), SlotSet (VStr ''time'') (VStr ''8pm'')]
   \<and> run restaurant_form (tracker_with_entities []) restaurant_domain
     = Inr [Form (Some ''book_restaurant''), SlotSet (VStr REQUESTED_SLOT) (VStr ''time'')]
   \<and> activate_if_required cancelling_form tracker_other_form_active validating_domain
     = Inr [Form (Some ''book_restaurant'')]
   \<and> run cancelling_form tracker_other_form_active validating_domain = Inr [Form None]"
proof -
  have s: "restaurant_form\<lparr>self_domain := Some restaurant_domain\<rparr> = restaurant_form"
    by (simp add: restaurant_form_def)
  have n: "form_name restaurant_form = ''book_restaurant''"
    by (simp add: restaurant_form_def)
  have i1: "af_name (active_form tracker_before_activation) \<noteq> Some (form_name restaurant_form)"
    by (simp add: tracker_before_activation_def)
  have a1: "activate_if_required (restaurant_form\<lparr>self_domain := Some restaurant_domain\<rparr>)
              tracker_before_activation restaurant_domain
            = Inr [Form (Some ''book_restaurant''), SlotSet (VStr ''time'') (VStr ''8pm'')]"
    by (simp add: ex_defs form_defs run_defs)
  have v1: "validate_if_required (restaurant_form\<lparr>self_domain := Some restaurant_domain\<rparr>)
              tracker_before_activation restaurant_domain
            = Inr [SlotSet (VStr ''people'') (VStr ''2'')]"
    by (simp add: ex_defs form_defs run_defs)
  have n1: "request_next_slot restaurant_form
              (from_events tracker_before_activation [SlotSet (VStr ''people'') (VStr ''2'')])
            = Inr None"
    by (simp add: ex_defs form_defs run_defs)
  have i2: "af_name (active_form (tracker_with_entities [])) \<noteq> Some (form_name restaurant_form)"
    by (simp add: tracker_with_entities_def)
  have a2: "activate_if_required (restaurant_form\<lparr>self_domain := Some restaurant_domain\<rparr>)
              (tracker_with_entities []) restaurant_domain
            = Inr [Form (Some ''book_restaurant'')]"
    by (simp add: ex_defs form_defs run_defs)
  have v2: "validate_if_required (restaurant_form\<lparr>self_domain := Some restaurant_domain\<rparr>)
              (tracker_with_entities []) restaurant_domain = Inr []"
    by (simp add: ex_defs form_defs run_defs)
  have n2: "request_next_slot restaurant_form (from_events (tracker_with_entities []) [])
            = Inr (Some [SlotSet (VStr REQUESTED_SLOT) (VStr ''time'')])"
    by (simp add: ex_defs form_defs run_defs)
  have s3: "cancelling_form\<lparr>self_domain := Some validating_domain\<rparr> = cancelling_form"
    by (simp add: cancelling_form_def)
  have i3: "af_name (active_form tracker_other_form_active) \<noteq> Some (form_name cancelling_form)"
    by (simp add: tracker_other_form_active_def cancelling_form_def)
  have a3: "activate_if_required (cancelling_form\<lparr>self_domain := Some validating_domain\<rparr>)
              tracker_other_form_active validating_domain
            = Inr [Form (Some ''book_restaurant'')]"
    by (simp add: ex_defs form_defs run_defs)
  have v3: "validate_if_required (cancelling_form\<lparr>self_domain := Some validating_domain\<rparr>)
              tracker_other_form_active validating_domain = Inr [Form None]"
    by (simp add: ex_defs form_defs run_defs)
  from run_omits_activation_events_when_finished [OF i1 a1 v1]
    run_omits_activation_events_when_finished [OF i2 a2 v2,
      where next_slot_events = "[SlotSet (VStr REQUESTED_SLOT) (VStr ''time'')]"]
    run_omits_activation_events_when_finished [OF i3 a3 v3]
    s n n1 n2 a1 s3 a3
  show ?thesis by (simp add: deactivate_def)
qed

end
